theory Spec2Isabelle
  imports Main "HOL-Library.Multiset"
begin

section \<open>Data model\<close>

text \<open>
  Every table variant is generic in \<open>T extends Record<string, unknown> & { id: string | number }\<close>.
  A row identifier (\<open>UniqueIdentifier\<close> in the drag-and-drop library) is a string or a
  number; numeric identifiers are modelled as integers
  (the demo data uses \<open>index + 1\<close>).  A row is an extensible record whose only fixed field
  is the identifier; all further fields of \<open>T\<close> live in the extension part, so equality of
  two rows is equality of all their fields.
\<close>

datatype UniqueIdentifier = Num int | Str string

record row =
  row_id :: UniqueIdentifier

text \<open>
  A slot of a JavaScript array holds a row or \<open>undefined\<close> (\<open>None\<close>): \<open>data[-1]\<close> and the
  first element of an empty array are \<open>undefined\<close>, and \<open>splice\<close> inserts such a value as
  it is.
\<close>

type_synonym 'a elem = "'a row_scheme option"

text \<open>\<open>SortingState\<close> of the table library: a list of \<open>{ id: string, desc: boolean }\<close>.\<close>

type_synonym SortingState = "(string \<times> bool) list"

text \<open>\<open>DragEndEvent\<close> of the drag-and-drop library: \<open>active.id\<close>, and \<open>over\<close>, which is
  \<open>null\<close> when the gesture ends over no drop target.\<close>

record DragEndEvent =
  active :: UniqueIdentifier
  over :: "UniqueIdentifier option"

text \<open>The props the handlers read: the canonical \<open>data\<close> array, whether the optional
  callback \<open>onReorder\<close> was passed, and the \<open>showSortableColumn\<close> toggle.\<close>

record 'a props =
  data :: "'a row_scheme list"
  onReorder :: bool
  showSortableColumn :: bool

text \<open>
  Component state (\<open>useState\<close>).  Every variant holds \<open>sorting\<close>; the second component of
  VirtuosoTable.tsx also holds \<open>activeId\<close>; the component of \<^verbatim>\<open>unnamed/part_000\<close> also holds
  \<open>isDragging\<close>, \<open>draggedRowIndex\<close> and \<open>overRowIndex\<close>.
\<close>

record tstate =
  sorting :: SortingState

record astate = tstate +
  activeId :: "UniqueIdentifier option"

record vstate = tstate +
  isDragging :: bool
  draggedRowIndex :: "int option"
  overRowIndex :: "int option"

text \<open>What one handler invocation leaves behind: the component state after it and the
  arguments of the calls of \<open>onReorder\<close> it made, in order.\<close>

record ('s, 'a) outcome =
  state_after :: 's
  calls :: "'a elem list list"

text \<open>The only exception a handler can raise: reading a property of \<open>undefined\<close>.\<close>

datatype error = TypeError

section \<open>Array primitives of the language\<close>

text \<open>\<open>Array.prototype.findIndex\<close>: the first index whose element satisfies the predicate,
  \<open>-1\<close> when there is none.\<close>

primrec findIndex :: "('a \<Rightarrow> bool) \<Rightarrow> 'a list \<Rightarrow> int" where
  "findIndex P [] = - 1"
| "findIndex P (x # xs) =
     (if P x then 0
      else (let r = findIndex P xs in if r = - 1 then - 1 else r + 1))"

text \<open>
  \<open>Array.prototype.indexOf\<close>: the first index holding the searched object.  Rows are
  compared as values, which is object identity as long as no two objects of the array
  agree on every field (in particular under unique identifiers).
\<close>

definition indexOf :: "'a \<Rightarrow> 'a list \<Rightarrow> int" where
  "indexOf x xs = findIndex (\<lambda>y. y = x) xs"

text \<open>
  \<open>Array.prototype.splice(start, deleteCount, ...items)\<close>: a negative \<open>start\<close> counts from
  the end (clamped at 0), a \<open>start\<close> beyond the length is the length, and the delete count
  is clamped to what is left.  The result is the pair of the removed elements and the
  array after the call.
\<close>

definition splice_js :: "int \<Rightarrow> int \<Rightarrow> 'a list \<Rightarrow> 'a list \<Rightarrow> 'a list \<times> 'a list" where
  "splice_js start deleteCount items xs =
     (let len = int (length xs);
          s = nat (if start < 0 then max (len + start) 0 else min start len);
          dc = nat (min (max deleteCount 0) (len - int s))
      in (take dc (drop s xs), take s xs @ items @ drop (s + dc) xs))"

text \<open>\<open>xs[i]\<close>: \<open>undefined\<close> outside the array.\<close>

definition at :: "'a list \<Rightarrow> int \<Rightarrow> 'a option" where
  "at xs i = (if 0 \<le> i \<and> i < int (length xs) then Some (xs ! nat i) else None)"

text \<open>\<open>const [movedItem] = removed\<close>: the first element, \<open>undefined\<close> for an empty array.\<close>

definition first_of :: "'a option list \<Rightarrow> 'a option" where
  "first_of xs = (case xs of [] \<Rightarrow> None | x # _ \<Rightarrow> x)"

text \<open>\<open>[...data]\<close>: a copy of the array, slot by slot.\<close>

definition spread :: "'a row_scheme list \<Rightarrow> 'a elem list" where
  "spread xs = map Some xs"

text \<open>\<open>onReorder?.(newData)\<close>: one call when the callback was passed, none otherwise.\<close>

definition call_onReorder :: "'a props \<Rightarrow> 'a elem list \<Rightarrow> 'a elem list list" where
  "call_onReorder p newData = (if onReorder p then [newData] else [])"

text \<open>
  \<open>String(id)\<close>: a string identifier is itself; an integer is written in decimal, with a
  leading minus sign when negative.
\<close>

definition digit_char :: "nat \<Rightarrow> char" where
  "digit_char d = ''0123456789'' ! d"

fun digits :: "nat \<Rightarrow> string" where
  "digits n = (if n < 10 then [digit_char n] else digits (n div 10) @ [digit_char (n mod 10)])"

declare digits.simps [simp del]

definition String_of :: "UniqueIdentifier \<Rightarrow> string" where
  "String_of i =
     (case i of
        Str s \<Rightarrow> s
      | Num n \<Rightarrow> if n < 0 then CHR ''-'' # digits (nat (- n)) else digits (nat n))"

section \<open>The drag-end handlers\<close>

subsection \<open>SecondTable.tsx (the same body is the first component of VirtuosoTable.tsx)\<close>

definition handleDragEnd_Second ::
  "'a props \<Rightarrow> tstate \<Rightarrow> DragEndEvent \<Rightarrow> (tstate, 'a) outcome" where
  "handleDragEnd_Second p st event =
     (case over event of
        None \<Rightarrow> \<lparr>state_after = st, calls = []\<rparr>
      | Some over_id \<Rightarrow>
          if active event \<noteq> over_id then
            (let oldIndex = findIndex (\<lambda>item. row_id item = active event) (data p);
                 newIndex = findIndex (\<lambda>item. row_id item = over_id) (data p);
                 newData = spread (data p);
                 newData = snd (splice_js oldIndex 1 [] newData);
                 newData = snd (splice_js newIndex 0 [at (data p) oldIndex] newData)
             in \<lparr>state_after = st, calls = call_onReorder p newData\<rparr>)
          else \<lparr>state_after = st, calls = []\<rparr>)"

subsection \<open>DnDKitTable.tsx, component \<open>DraggableVirtualTable\<close> (guarded variant)\<close>

definition handleDragEnd_DnDKit ::
  "'a props \<Rightarrow> tstate \<Rightarrow> DragEndEvent \<Rightarrow> (tstate, 'a) outcome" where
  "handleDragEnd_DnDKit p st event =
     (case over event of
        None \<Rightarrow> \<lparr>state_after = st, calls = []\<rparr>
      | Some over_id \<Rightarrow>
          if active event \<noteq> over_id \<and> onReorder p then
            (let activeIndex = findIndex (\<lambda>item. row_id item = active event) (data p);
                 overIndex = findIndex (\<lambda>item. row_id item = over_id) (data p)
             in if activeIndex = - 1 \<or> overIndex = - 1 then \<lparr>state_after = st, calls = []\<rparr>
                else
                  (let newData = spread (data p);
                       newData = snd (splice_js activeIndex 1 [] newData);
                       newData = snd (splice_js overIndex 0 [at (data p) activeIndex] newData)
                   in \<lparr>state_after = st, calls = [newData]\<rparr>))
          else \<lparr>state_after = st, calls = []\<rparr>)"

subsection \<open>VirtuosoTable.tsx, second component (delegates to the library's \<open>arrayMove\<close>)\<close>

text \<open>
  \<open>arrayMove\<close> is imported from the drag-and-drop library and is not part of the
  repository, so it is a parameter of the handler.  \<open>onDragCancel\<close> only clears
  \<open>activeId\<close>.
\<close>

definition handleDragEnd_Virtuoso ::
  "('a row_scheme list \<Rightarrow> int \<Rightarrow> int \<Rightarrow> 'a elem list) \<Rightarrow>
   'a props \<Rightarrow> astate \<Rightarrow> DragEndEvent \<Rightarrow> (astate, 'a) outcome" where
  "handleDragEnd_Virtuoso arrayMove p st event =
     (case over event of
        None \<Rightarrow> \<lparr>state_after = st, calls = []\<rparr>
      | Some over_id \<Rightarrow>
          (let cs =
             (if active event \<noteq> over_id then
                (let oldIndex = findIndex (\<lambda>item. row_id item = active event) (data p);
                     newIndex = findIndex (\<lambda>item. row_id item = over_id) (data p)
                 in call_onReorder p (arrayMove (data p) oldIndex newIndex))
              else [])
           in \<lparr>state_after = st\<lparr>activeId := None\<rparr>, calls = cs\<rparr>))"

definition onDragCancel_Virtuoso :: "astate \<Rightarrow> (astate, 'a) outcome" where
  "onDragCancel_Virtuoso st = \<lparr>state_after = st\<lparr>activeId := None\<rparr>, calls = []\<rparr>"

subsection \<open>\<^verbatim>\<open>unnamed/part_001\<close>, component \<open>ThirdVirtualizedDraggableTable\<close>\<close>

text \<open>
  The native drag events carry the dragged identifier as text (\<open>draggedId\<close>) and the
  handler receives \<open>rowIndex\<close>, the index of the drop row in the displayed rows
  (\<open>virtualRow.index\<close>).
\<close>

definition handleDragEnd_Third ::
  "'a props \<Rightarrow> tstate \<Rightarrow> string \<Rightarrow> int \<Rightarrow> (tstate, 'a) outcome" where
  "handleDragEnd_Third p st draggedId rowIndex =
     (let draggedIndex = findIndex (\<lambda>item. String_of (row_id item) = draggedId) (data p)
      in if draggedIndex \<noteq> - 1 \<and> draggedIndex \<noteq> rowIndex then
           (let newData = spread (data p);
                (removed, newData) = splice_js draggedIndex 1 [] newData;
                movedItem = first_of removed;
                newData = snd (splice_js rowIndex 0 [movedItem] newData)
            in \<lparr>state_after = st, calls = call_onReorder p newData\<rparr>)
         else \<lparr>state_after = st, calls = []\<rparr>)"

subsection \<open>WindowTable.tsx\<close>

text \<open>
  \<open>rows\<close> is \<open>table.getRowModel().rows\<close>, the rows in displayed order, each standing for
  its \<open>original\<close> object of \<open>data\<close>; the table library that computes it from \<open>data\<close> and
  \<open>sorting\<close> is outside the repository, so the displayed rows are an argument.
  \<open>rows[rowIndex].original\<close> raises when \<open>rowIndex\<close> is not an index of \<open>rows\<close>.
\<close>

definition handleDragEnd_Window ::
  "'a props \<Rightarrow> 'a row_scheme list \<Rightarrow> tstate \<Rightarrow> string \<Rightarrow> int \<Rightarrow>
   error + (tstate, 'a) outcome" where
  "handleDragEnd_Window p rows st draggedId rowIndex =
     (let draggedSortedIndex = findIndex (\<lambda>row. String_of (row_id row) = draggedId) rows
      in if draggedSortedIndex \<noteq> - 1 \<and> draggedSortedIndex \<noteq> rowIndex then
           (let newData = spread (data p);
                sourceOriginalIndex =
                  findIndex (\<lambda>item. String_of (row_id item) = draggedId) (data p)
            in case at rows rowIndex of
                 None \<Rightarrow> Inl TypeError
               | Some target \<Rightarrow>
                   (let targetOriginalIndex = indexOf target (data p);
                        (removed, newData) = splice_js sourceOriginalIndex 1 [] newData;
                        movedItem = first_of removed;
                        newData = snd (splice_js targetOriginalIndex 0 [movedItem] newData);
                        st = (if length (sorting st) \<noteq> 0 then st\<lparr>sorting := []\<rparr> else st)
                    in Inr \<lparr>state_after = st, calls = call_onReorder p newData\<rparr>))
         else Inr \<lparr>state_after = st, calls = []\<rparr>)"

subsection \<open>\<^verbatim>\<open>unnamed/part_000\<close>, component \<open>VirtualizedDraggableTable\<close>\<close>

definition resetDragState :: "vstate \<Rightarrow> vstate" where
  "resetDragState st = st\<lparr>isDragging := False, draggedRowIndex := None, overRowIndex := None\<rparr>"

definition handleDragEnd_Virtualized ::
  "'a props \<Rightarrow> 'a row_scheme list \<Rightarrow> vstate \<Rightarrow> string \<Rightarrow> int \<Rightarrow>
   error + (vstate, 'a) outcome" where
  "handleDragEnd_Virtualized p rows st draggedId rowIndex =
     (let draggedSortedIndex = findIndex (\<lambda>row. String_of (row_id row) = draggedId) rows
      in if draggedSortedIndex \<noteq> - 1 \<and> draggedSortedIndex \<noteq> rowIndex then
           (let newData = spread (data p);
                sourceOriginalIndex =
                  findIndex (\<lambda>item. String_of (row_id item) = draggedId) (data p)
            in case at rows rowIndex of
                 None \<Rightarrow> Inl TypeError
               | Some target \<Rightarrow>
                   (let targetOriginalIndex = indexOf target (data p);
                        (removed, newData) = splice_js sourceOriginalIndex 1 [] newData;
                        movedItem = first_of removed;
                        newData = snd (splice_js targetOriginalIndex 0 [movedItem] newData);
                        st = (if length (sorting st) \<noteq> 0 then st\<lparr>sorting := []\<rparr> else st)
                    in Inr \<lparr>state_after = resetDragState st,
                            calls = call_onReorder p newData\<rparr>))
         else Inr \<lparr>state_after = resetDragState st, calls = []\<rparr>)"

section \<open>The gesture life cycle of \<^verbatim>\<open>unnamed/part_000\<close>\<close>


definition onDragStart :: "int \<Rightarrow> vstate \<Rightarrow> vstate" where
  "onDragStart rowIndex st = st\<lparr>isDragging := True, draggedRowIndex := Some rowIndex\<rparr>"

definition onDragOver :: "int \<Rightarrow> vstate \<Rightarrow> vstate" where
  "onDragOver rowIndex st = st\<lparr>overRowIndex := Some rowIndex\<rparr>"

text \<open>
  The events the component reacts to.  A click on a sortable header runs the table library's
  toggle handler, which ends in \<open>onSortingChange: setSorting\<close> with the next sort state; a
  drop carries the transferred text and the index of the drop row; the parent may re-render
  the component with new props at any time.
\<close>

datatype 'a gesture_event =
    HeaderClick SortingState
  | DragStart int
  | DragOver int
  | Drop string int
  | DragEnd
  | Rerender "'a props"

text \<open>
  One event.  \<open>view\<close> stands for the table library (\<open>table.getRowModel().rows\<close> as a
  function of the sort state and the data).  The header's \<open>onClick\<close> is attached only
  while \<open>!isDragging\<close>; an event that cannot occur yields \<open>None\<close>.  The \<open>draggable\<close>
  attribute is no guard of the handlers: \<open>onDragStart\<close> and \<open>onDrop\<close> are attached to
  every rendered row and run on every \<open>dragstart\<close> and \<open>drop\<close> that reaches it.  A handler
  that raises leaves the state as it was: \<open>onDragStart\<close> reads
  \<open>rows[rowIndex].original.id\<close> before it sets any state.
\<close>

fun step ::
  "(SortingState \<Rightarrow> 'a row_scheme list \<Rightarrow> 'a row_scheme list) \<Rightarrow>
   'a props \<times> vstate \<Rightarrow> 'a gesture_event \<Rightarrow> ('a props \<times> vstate) option" where
  "step view (p, st) (HeaderClick s) =
     (if isDragging st then None else Some (p, st\<lparr>sorting := s\<rparr>))"
| "step view (p, st) (DragStart rowIndex) =
     (case at (view (sorting st) (data p)) rowIndex of
        None \<Rightarrow> Some (p, st)
      | Some _ \<Rightarrow> Some (p, onDragStart rowIndex st))"
| "step view (p, st) (DragOver rowIndex) = Some (p, onDragOver rowIndex st)"
| "step view (p, st) (Drop draggedId rowIndex) =
     (case handleDragEnd_Virtualized p (view (sorting st) (data p)) st draggedId rowIndex of
        Inl _ \<Rightarrow> Some (p, st)
      | Inr out \<Rightarrow> Some (p, state_after out))"
| "step view (p, st) DragEnd = Some (p, resetDragState st)"
| "step view (p, st) (Rerender p') = Some (p', st)"



section \<open>Arrays as objects: a store\<close>

text \<open>
  Whether a handler mutates the array it was given can only be said where arrays have an
  identity.  A store is the list of all allocated arrays, an address is a position in it;
  \<open>[...xs]\<close> allocates a new array, \<open>splice\<close> updates the array at an address in place.
\<close>

type_synonym addr = nat

type_synonym 'a store = "'a elem list list"

definition alloc :: "'a elem list \<Rightarrow> 'a store \<Rightarrow> addr \<times> 'a store" where
  "alloc xs h = (length h, h @ [xs])"

definition splice_at ::
  "addr \<Rightarrow> int \<Rightarrow> int \<Rightarrow> 'a elem list \<Rightarrow> 'a store \<Rightarrow> 'a elem list \<times> 'a store" where
  "splice_at a start deleteCount items h =
     (let (removed, xs) = splice_js start deleteCount items (h ! a) in (removed, h[a := xs]))"

text \<open>\<open>xs[i]\<close> on a stored array: the slot, \<open>undefined\<close> outside the array.\<close>

definition slot :: "'a elem list \<Rightarrow> int \<Rightarrow> 'a elem" where
  "slot xs i = (case at xs i of None \<Rightarrow> None | Some e \<Rightarrow> e)"

text \<open>
  The handlers of SecondTable.tsx and \<^verbatim>\<open>unnamed/part_001\<close> on the store.  \<open>d\<close> is the
  address of the \<open>data\<close> prop and \<open>cb\<close> tells whether \<open>onReorder\<close> was passed; the result
  is the store after the call and the addresses passed to \<open>onReorder\<close>.  \<open>data\<close> is typed
  \<open>T[]\<close>: the handlers are modelled on arrays without \<open>undefined\<close> slots and on valid
  addresses only (\<open>None\<close> otherwise).
\<close>

definition handleDragEnd_Second_store ::
  "bool \<Rightarrow> addr \<Rightarrow> 'a store \<Rightarrow> DragEndEvent \<Rightarrow> ('a store \<times> addr list) option" where
  "handleDragEnd_Second_store cb d h event =
     (if length h \<le> d then None
      else case those (h ! d) of
        None \<Rightarrow> None
      | Some rows \<Rightarrow>
         (case over event of
            None \<Rightarrow> Some (h, [])
          | Some over_id \<Rightarrow>
              if active event \<noteq> over_id then
                (let oldIndex = findIndex (\<lambda>item. row_id item = active event) rows;
                     newIndex = findIndex (\<lambda>item. row_id item = over_id) rows;
                     (newData, h) = alloc (h ! d) h;
                     h = snd (splice_at newData oldIndex 1 [] h);
                     h = snd (splice_at newData newIndex 0 [slot (h ! d) oldIndex] h)
                 in Some (h, if cb then [newData] else []))
              else Some (h, [])))"

definition handleDragEnd_Third_store ::
  "bool \<Rightarrow> addr \<Rightarrow> 'a store \<Rightarrow> string \<Rightarrow> int \<Rightarrow> ('a store \<times> addr list) option" where
  "handleDragEnd_Third_store cb d h draggedId rowIndex =
     (if length h \<le> d then None
      else case those (h ! d) of
        None \<Rightarrow> None
      | Some rows \<Rightarrow>
         (let draggedIndex = findIndex (\<lambda>item. String_of (row_id item) = draggedId) rows
          in if draggedIndex \<noteq> - 1 \<and> draggedIndex \<noteq> rowIndex then
               (let (newData, h) = alloc (h ! d) h;
                    (removed, h) = splice_at newData draggedIndex 1 [] h;
                    movedItem = first_of removed;
                    h = snd (splice_at newData rowIndex 0 [movedItem] h)
                in Some (h, if cb then [newData] else []))
             else Some (h, [])))"

section \<open>Auxiliary notions for the statements\<close>

text \<open>Moving the element at index \<open>i\<close> to index \<open>j\<close>: remove it, then insert it at \<open>j\<close> in
  what is left.\<close>

definition move_to :: "nat \<Rightarrow> nat \<Rightarrow> 'a list \<Rightarrow> 'a list" where
  "move_to i j xs =
     (let rest = take i xs @ drop (Suc i) xs in take j rest @ xs ! i # drop j rest)"

text \<open>Sample data in the shape of \<open>generateData\<close> (identifiers \<open>index + 1\<close>), three rows.\<close>

definition sample_row :: "int \<Rightarrow> row" where
  "sample_row n = \<lparr>row_id = Num n\<rparr>"

definition sample_props :: "unit props" where
  "sample_props =
     \<lparr>data = [sample_row 1, sample_row 2, sample_row 3],
      onReorder = True, showSortableColumn = True\<rparr>"

text \<open>A descending sort on the \<open>id\<close> column, and the rows it displays for the sample data.\<close>

definition sorted_desc :: tstate where
  "sorted_desc = \<lparr>sorting = [(''id'', True)]\<rparr>"

definition sample_displayed :: "row list" where
  "sample_displayed = [sample_row 3, sample_row 2, sample_row 1]"


section \<open>Properties of the array primitives\<close>

lemma findIndex_bounds: "- 1 \<le> findIndex P xs \<and> findIndex P xs < int (length xs)"
  by (induction xs) (auto simp: Let_def)

lemma findIndex_absent: "findIndex P xs = - 1 \<longleftrightarrow> (\<forall>x\<in>set xs. \<not> P x)"
proof (induction xs)
  case Nil
  show ?case by simp
next
  case (Cons x xs)
  have "- 1 \<le> findIndex P xs" using findIndex_bounds[of P xs] by simp
  with Cons show ?case by (auto simp: Let_def)
qed

lemma findIndex_nth:
  "findIndex P xs \<noteq> - 1 \<Longrightarrow> P (xs ! nat (findIndex P xs))"
proof (induction xs)
  case Nil
  then show ?case by simp
next
  case (Cons x xs)
  have b: "- 1 \<le> findIndex P xs" using findIndex_bounds[of P xs] by simp
  show ?case
  proof (cases "P x")
    case True
    then show ?thesis by simp
  next
    case False
    with Cons.prems have ne: "findIndex P xs \<noteq> - 1" by (auto simp: Let_def split: if_splits)
    with b have "0 \<le> findIndex P xs" by simp
    then have "nat (findIndex P xs + 1) = Suc (nat (findIndex P xs))" by simp
    with False ne Cons.IH show ?thesis by (simp add: Let_def)
  qed
qed

lemma findIndex_present:
  assumes "\<exists>x\<in>set xs. P x"
  shows "0 \<le> findIndex P xs" and "nat (findIndex P xs) < length xs"
    and "P (xs ! nat (findIndex P xs))"
proof -
  have ne: "findIndex P xs \<noteq> - 1" using assms findIndex_absent[of P xs] by blast
  with findIndex_bounds[of P xs] show "0 \<le> findIndex P xs" by simp
  with findIndex_bounds[of P xs] show "nat (findIndex P xs) < length xs" by simp
  from ne show "P (xs ! nat (findIndex P xs))" by (rule findIndex_nth)
qed


lemma splice_remove:
  assumes "0 \<le> i" and "i < int (length xs)"
  shows "splice_js i 1 [] xs = ([xs ! nat i], take (nat i) xs @ drop (Suc (nat i)) xs)"
proof -
  from assms have lt: "nat i < length xs" by simp
  then have d: "drop (nat i) xs = xs ! nat i # drop (Suc (nat i)) xs"
    by (simp add: Cons_nth_drop_Suc)
  from assms have s: "nat (min i (int (length xs))) = nat i" by simp
  from assms have c: "nat (min 1 (int (length xs) - int (nat i))) = 1" by simp
  from assms show ?thesis
    unfolding splice_js_def Let_def by (simp add: s c d)
qed

lemma splice_insert:
  "0 \<le> j \<Longrightarrow> j \<le> int (length ys) \<Longrightarrow>
   splice_js j 0 [v] ys = ([], take (nat j) ys @ v # drop (nat j) ys)"
  by (simp add: splice_js_def Let_def min_def max_def)

section \<open>Properties of moving one element\<close>

lemma mset_remove_nth:
  "i < length xs \<Longrightarrow> mset (take i xs @ drop (Suc i) xs) + {#xs ! i#} = mset xs"
proof -
  assume "i < length xs"
  then have "xs = take i xs @ xs ! i # drop (Suc i) xs" by (simp add: id_take_nth_drop)
  then have "mset xs = mset (take i xs @ xs ! i # drop (Suc i) xs)" by simp
  then show ?thesis by simp
qed

lemma mset_move_to: "i < length xs \<Longrightarrow> mset (move_to i j xs) = mset xs"
proof -
  assume i: "i < length xs"
  let ?rest = "take i xs @ drop (Suc i) xs"
  have "mset (take j ?rest @ xs ! i # drop j ?rest) = mset (take j ?rest @ drop j ?rest) + {#xs ! i#}"
    by simp
  also have "\<dots> = mset ?rest + {#xs ! i#}" by (simp only: append_take_drop_id)
  also have "\<dots> = mset xs" using i by (rule mset_remove_nth)
  finally show ?thesis by (simp add: move_to_def Let_def)
qed

lemma length_move_to: "i < length xs \<Longrightarrow> length (move_to i j xs) = length xs"
  using mset_move_to[of i xs j] by (metis size_mset)

lemma nth_move_to:
  "i < length xs \<Longrightarrow> j < length xs \<Longrightarrow> move_to i j xs ! j = xs ! i"
  by (simp add: move_to_def Let_def nth_append min_def) 

lemma filter_move_to:
  assumes "i < length xs" and "\<not> Q (xs ! i)"
  shows "filter Q (move_to i j xs) = filter Q xs"
proof -
  let ?rest = "take i xs @ drop (Suc i) xs"
  from assms(1) have "xs = take i xs @ xs ! i # drop (Suc i) xs" by (simp add: id_take_nth_drop)
  then have "filter Q xs = filter Q (take i xs @ xs ! i # drop (Suc i) xs)" by simp
  also have "\<dots> = filter Q ?rest" using assms(2) by simp
  finally have a: "filter Q xs = filter Q ?rest" .
  have "filter Q (move_to i j xs) = filter Q (take j ?rest @ drop j ?rest)"
    using assms(2) by (simp add: move_to_def Let_def)
  also have "\<dots> = filter Q ?rest" by (simp only: append_take_drop_id)
  finally show ?thesis using a by simp
qed

lemma splice_move:
  assumes "i < length S" and "j < length S"
  shows "snd (splice_js (int j) 0 [at S (int i)] (snd (splice_js (int i) 1 [] (spread S))))
         = spread (move_to i j S)"
proof -
  let ?rest = "take i S @ drop (Suc i) S"
  from assms(1) have r: "snd (splice_js (int i) 1 [] (spread S)) = spread ?rest"
    by (simp add: splice_remove spread_def take_map drop_map)
  from assms have "int j \<le> int (length (spread ?rest))" by (simp add: spread_def)
  then have "snd (splice_js (int j) 0 [at S (int i)] (spread ?rest))
        = take j (spread ?rest) @ at S (int i) # drop j (spread ?rest)"
    by (simp add: splice_insert)
  with r assms show ?thesis
    by (simp add: move_to_def Let_def spread_def at_def take_map drop_map)
qed

lemma nth_move_to_outside:
  assumes "i < length xs" "j < length xs" "k < length xs" "k < min i j \<or> max i j < k"
  shows "move_to i j xs ! k = xs ! k"
  using assms by (auto simp: move_to_def Let_def nth_append min_def max_def nth_Cons' split: if_splits)

lemma nth_move_to_left:
  assumes "i < length xs" "j < length xs" "i \<le> k" "k < j"
  shows "move_to i j xs ! k = xs ! Suc k"
  using assms by (auto simp: move_to_def Let_def nth_append min_def nth_Cons')

lemma nth_move_to_right:
  assumes "i < length xs" "j < length xs" "j < k" "k \<le> i"
  shows "move_to i j xs ! k = xs ! (k - 1)"
  using assms by (auto simp: move_to_def Let_def nth_append min_def nth_Cons')

section \<open>The handlers on identifiers that are present\<close>

lemma present_index:
  assumes "a \<in> row_id ` set S"
  shows "\<exists>i. i < length S \<and> row_id (S ! i) = a \<and> findIndex (\<lambda>item. row_id item = a) S = int i"
proof -
  let ?k = "findIndex (\<lambda>item. row_id item = a) S"
  from assms have ex: "\<exists>x\<in>set S. row_id x = a" by auto
  have "0 \<le> ?k" and "nat ?k < length S" and "row_id (S ! nat ?k) = a"
    using findIndex_present[of S "\<lambda>item. row_id item = a", OF ex] by simp_all
  then show ?thesis by (intro exI[of _ "nat ?k"]) simp
qed

lemma handleDragEnd_Second_commit:
  assumes "findIndex (\<lambda>item. row_id item = a) (data p) = int i" and "i < length (data p)"
    and "findIndex (\<lambda>item. row_id item = b) (data p) = int j" and "j < length (data p)"
    and "a \<noteq> b"
  shows "handleDragEnd_Second p st \<lparr>active = a, over = Some b\<rparr>
         = \<lparr>state_after = st, calls = call_onReorder p (spread (move_to i j (data p)))\<rparr>"
  using assms by (simp add: handleDragEnd_Second_def Let_def splice_move)

lemma handleDragEnd_DnDKit_commit:
  assumes "findIndex (\<lambda>item. row_id item = a) (data p) = int i" and "i < length (data p)"
    and "findIndex (\<lambda>item. row_id item = b) (data p) = int j" and "j < length (data p)"
    and "a \<noteq> b" and "onReorder p"
  shows "handleDragEnd_DnDKit p st \<lparr>active = a, over = Some b\<rparr>
         = \<lparr>state_after = st, calls = [spread (move_to i j (data p))]\<rparr>"
  using assms by (simp add: handleDragEnd_DnDKit_def Let_def splice_move)

lemma handleDragEnd_Window_clears_sorting:
  "handleDragEnd_Window p rows st draggedId rowIndex = Inr out \<Longrightarrow> calls out \<noteq> [] \<Longrightarrow>
   sorting (state_after out) = []"
  by (auto simp: handleDragEnd_Window_def Let_def split: if_splits option.splits prod.splits)

lemma handleDragEnd_Virtualized_clears_sorting:
  "handleDragEnd_Virtualized p rows st draggedId rowIndex = Inr out \<Longrightarrow> calls out \<noteq> [] \<Longrightarrow>
   sorting (state_after out) = []"
  by (auto simp: handleDragEnd_Virtualized_def resetDragState_def Let_def
      split: if_splits option.splits prod.splits)

lemma handleDragEnd_Second_keeps_state: "state_after (handleDragEnd_Second p st event) = st"
  by (simp add: handleDragEnd_Second_def Let_def split: option.splits)

lemma handleDragEnd_Third_keeps_state:
  "state_after (handleDragEnd_Third p st draggedId rowIndex) = st"
  by (simp add: handleDragEnd_Third_def Let_def split: prod.splits)

lemma handleDragEnd_DnDKit_absent:
  assumes "a \<notin> row_id ` set (data p) \<or> b \<notin> row_id ` set (data p)"
  shows "handleDragEnd_DnDKit p st \<lparr>active = a, over = Some b\<rparr> = \<lparr>state_after = st, calls = []\<rparr>"
proof -
  from assms have "findIndex (\<lambda>item. row_id item = a) (data p) = - 1
      \<or> findIndex (\<lambda>item. row_id item = b) (data p) = - 1"
    by (auto simp: findIndex_absent)
  then show ?thesis by (auto simp: handleDragEnd_DnDKit_def Let_def)
qed

section \<open>The store handlers against the pure ones\<close>

lemma those_spread: "those (spread S) = Some S"
  by (induction S) (simp_all add: spread_def)

lemma slot_spread: "slot (spread S) i = at S i"
  by (auto simp: slot_def at_def spread_def)

lemma splice_at_last:
  "splice_at (length h) start dc items (h @ [xs])
   = (fst (splice_js start dc items xs), h @ [snd (splice_js start dc items xs)])"
  by (simp add: splice_at_def split: prod.splits)

lemma handleDragEnd_Second_store_eq:
  assumes "d < length h" and "h ! d = spread S"
  shows "handleDragEnd_Second_store cb d h event =
     (case calls (handleDragEnd_Second \<lparr>data = S, onReorder = True, showSortableColumn = sc\<rparr> st event) of
        [] \<Rightarrow> Some (h, [])
      | newData # _ \<Rightarrow> Some (h @ [newData], if cb then [length h] else []))"
  using assms
  by (simp add: handleDragEnd_Second_store_def handleDragEnd_Second_def those_spread alloc_def
      splice_at_last nth_append slot_spread call_onReorder_def Let_def split: option.splits)

lemma handleDragEnd_Third_store_eq:
  assumes "d < length h" and "h ! d = spread S"
  shows "handleDragEnd_Third_store cb d h draggedId rowIndex =
     (case calls (handleDragEnd_Third \<lparr>data = S, onReorder = True, showSortableColumn = sc\<rparr> st draggedId rowIndex) of
        [] \<Rightarrow> Some (h, [])
      | newData # _ \<Rightarrow> Some (h @ [newData], if cb then [length h] else []))"
  using assms
  by (simp add: handleDragEnd_Third_store_def handleDragEnd_Third_def those_spread alloc_def
      splice_at_last nth_append call_onReorder_def Let_def split: option.splits prod.splits)

lemma calls_Second_cases:
  "calls (handleDragEnd_Second \<lparr>data = S, onReorder = cb, showSortableColumn = sc\<rparr> st event)
   = (if cb then calls (handleDragEnd_Second \<lparr>data = S, onReorder = True, showSortableColumn = sc\<rparr> st event) else [])"
  "length (calls (handleDragEnd_Second \<lparr>data = S, onReorder = True, showSortableColumn = sc\<rparr> st event)) \<le> 1"
  by (simp_all add: handleDragEnd_Second_def call_onReorder_def Let_def split: option.splits)

lemma calls_Third_cases:
  "calls (handleDragEnd_Third \<lparr>data = S, onReorder = cb, showSortableColumn = sc\<rparr> st t k)
   = (if cb then calls (handleDragEnd_Third \<lparr>data = S, onReorder = True, showSortableColumn = sc\<rparr> st t k) else [])"
  "length (calls (handleDragEnd_Third \<lparr>data = S, onReorder = True, showSortableColumn = sc\<rparr> st t k)) \<le> 1"
  by (simp_all add: handleDragEnd_Third_def call_onReorder_def Let_def split: option.splits prod.splits)

lemma store_outcome_frame:
  assumes "d < length h" and "length cs0 \<le> 1"
    and "r = (case cs0 of [] \<Rightarrow> Some (h, []) | newData # _ \<Rightarrow> Some (h @ [newData], if cb then [length h] else []))"
  shows "\<exists>h' cs. r = Some (h', cs)
            \<and> h' ! d = h ! d \<and> (\<forall>a. a < length h \<longrightarrow> h' ! a = h ! a)
            \<and> (\<forall>c \<in> set cs. c \<noteq> d \<and> length h \<le> c \<and> c < length h')
            \<and> map ((!) h') cs = (if cb then cs0 else [])"
proof (cases cs0)
  case Nil
  with assms show ?thesis by simp
next
  case (Cons x xs)
  with assms(2) have "xs = []" by simp
  with Cons assms show ?thesis by (auto simp: nth_append)
qed

section \<open>The drop handler of \<^verbatim>\<open>unnamed/part_000\<close> on any displayed order\<close>





section \<open>The claims\<close>

text \<open>
  C1.  The claim: every variant resolves both ends of a drag by looking the identifiers up
  in the canonical \<open>data\<close> array, never by the index a row has in the displayed view.
  The handler of \<^verbatim>\<open>unnamed/part_001\<close> inserts at \<open>rowIndex\<close>, the displayed index of
  the drop row.  With the sample data \<open>[1, 2, 3]\<close> displayed as \<open>[3, 2, 1]\<close>, dragging row 2
  onto row 3 (displayed index 0) yields \<open>[2, 1, 3]\<close>, where the handler of WindowTable.tsx,
  which looks the drop row up in \<open>data\<close>, yields \<open>[1, 3, 2]\<close>; and dragging row 3 onto
  row 1 (displayed index 2, the canonical index of row 3) is dropped without any call,
  while dropping row 3 on itself (displayed index 0) moves it to the front of the data.
\<close>

theorem third_resolves_target_by_displayed_index:
  "calls (handleDragEnd_Third sample_props sorted_desc ''2'' 0)
     = [[Some (sample_row 2), Some (sample_row 1), Some (sample_row 3)]]
   \<and> handleDragEnd_Window sample_props sample_displayed sorted_desc ''2'' 0
     = Inr \<lparr>state_after = \<lparr>sorting = []\<rparr>,
            calls = [[Some (sample_row 1), Some (sample_row 3), Some (sample_row 2)]]\<rparr>
   \<and> calls (handleDragEnd_Third sample_props sorted_desc ''3'' 2) = []
   \<and> calls (handleDragEnd_Third sample_props sorted_desc ''3'' 0)
     = [[Some (sample_row 3), Some (sample_row 1), Some (sample_row 2)]]"
  by code_simp

text \<open>
  C2.  For a data array with unique identifiers and two different identifiers \<open>a\<close>, \<open>b\<close>
  that both occur in it, the drag-end handler (SecondTable.tsx, and the guarded handler of
  DnDKitTable.tsx) passes to \<open>onReorder\<close> exactly one array; it has no \<open>undefined\<close> slot,
  it has the length of the data and the same multiset of rows: no row is created, lost
  or duplicated.
\<close>

theorem move_is_permutation:
  assumes "distinct (map row_id (data p))"
    and "a \<in> row_id ` set (data p)" and "b \<in> row_id ` set (data p)" and "a \<noteq> b"
    and "onReorder p"
  shows "\<exists>S'. calls (handleDragEnd_Second p st \<lparr>active = a, over = Some b\<rparr>) = [spread S']
            \<and> calls (handleDragEnd_DnDKit p st \<lparr>active = a, over = Some b\<rparr>) = [spread S']
            \<and> length S' = length (data p) \<and> mset S' = mset (data p)"
proof -
  from assms(2) obtain i where i: "i < length (data p)"
    "findIndex (\<lambda>item. row_id item = a) (data p) = int i" using present_index by blast
  from assms(3) obtain j where j: "j < length (data p)"
    "findIndex (\<lambda>item. row_id item = b) (data p) = int j" using present_index by blast
  let ?S' = "move_to i j (data p)"
  have "calls (handleDragEnd_Second p st \<lparr>active = a, over = Some b\<rparr>) = [spread ?S']"
    using handleDragEnd_Second_commit[OF i(2) i(1) j(2) j(1) assms(4)] assms(5)
    by (simp add: call_onReorder_def)
  moreover have "calls (handleDragEnd_DnDKit p st \<lparr>active = a, over = Some b\<rparr>) = [spread ?S']"
    using handleDragEnd_DnDKit_commit[OF i(2) i(1) j(2) j(1) assms(4) assms(5)] by simp
  moreover have "length ?S' = length (data p)" using i(1) by (rule length_move_to)
  moreover have "mset ?S' = mset (data p)" using i(1) by (rule mset_move_to)
  ultimately show ?thesis by blast
qed

theorem move_is_permutation_witness:
  "\<exists>S'. calls (handleDragEnd_Second sample_props sorted_desc
               \<lparr>active = Num 1, over = Some (Num 3)\<rparr>) = [spread S']
      \<and> calls (handleDragEnd_DnDKit sample_props sorted_desc
               \<lparr>active = Num 1, over = Some (Num 3)\<rparr>) = [spread S']
      \<and> length S' = length (data sample_props) \<and> mset S' = mset (data sample_props)"
proof -
  have d: "distinct (map row_id (data sample_props))"
    by (simp add: sample_props_def sample_row_def)
  have a: "Num 1 \<in> row_id ` set (data sample_props)"
    by (simp add: sample_props_def sample_row_def)
  have b: "Num 3 \<in> row_id ` set (data sample_props)"
    by (simp add: sample_props_def sample_row_def)
  have ne: "Num 1 \<noteq> Num 3" by simp
  have cb: "onReorder sample_props" by (simp add: sample_props_def)
  show ?thesis by (rule move_is_permutation[OF d a b ne cb])
qed

text \<open>
  C3.  The claim: a drag-end event whose dragged or target identifier does not occur in the
  data is a silent no-op.  The guarded handler of DnDKitTable.tsx returns before it
  touches anything (\<open>handleDragEnd_DnDKit_absent\<close>); the handler of SecondTable.tsx has no
  such guard.  On the sample data, an unknown dragged identifier makes \<open>splice(-1, 1)\<close>
  remove the last row and inserts \<open>undefined\<close> (\<open>data[-1]\<close>) at the target, and an unknown
  target makes \<open>splice(-1, 0, row)\<close> re-insert the dragged row before the last one; both
  arrays are passed to \<open>onReorder\<close>.
\<close>

theorem second_absent_identifier_corrupts:
  "calls (handleDragEnd_Second sample_props sorted_desc \<lparr>active = Num 9, over = Some (Num 1)\<rparr>)
     = [[None, Some (sample_row 1), Some (sample_row 2)]]
   \<and> calls (handleDragEnd_Second sample_props sorted_desc \<lparr>active = Num 1, over = Some (Num 9)\<rparr>)
     = [[Some (sample_row 2), Some (sample_row 1), Some (sample_row 3)]]
   \<and> calls (handleDragEnd_DnDKit sample_props sorted_desc \<lparr>active = Num 9, over = Some (Num 1)\<rparr>)
     = []"
  by code_simp

text \<open>
  C4.  The claim: in every variant a committed reorder clears the sort state in the same
  handler invocation.  The handlers of WindowTable.tsx and \<^verbatim>\<open>unnamed/part_000\<close> do
  (\<open>handleDragEnd_Window_clears_sorting\<close>, \<open>handleDragEnd_Virtualized_clears_sorting\<close>); the
  handler of SecondTable.tsx never calls \<open>setSorting\<close>
  (\<open>handleDragEnd_Second_keeps_state\<close>).  On the sample data under a descending sort,
  dragging row 3 onto row 1 commits \<open>[3, 1, 2]\<close> in both, and only WindowTable.tsx ends with
  an empty sort state.
\<close>

theorem second_reorder_keeps_sorting:
  "handleDragEnd_Second sample_props sorted_desc \<lparr>active = Num 3, over = Some (Num 1)\<rparr>
     = \<lparr>state_after = \<lparr>sorting = [(''id'', True)]\<rparr>,
        calls = [[Some (sample_row 3), Some (sample_row 1), Some (sample_row 2)]]\<rparr>
   \<and> handleDragEnd_Window sample_props sample_displayed sorted_desc ''3'' 2
     = Inr \<lparr>state_after = \<lparr>sorting = []\<rparr>,
            calls = [[Some (sample_row 3), Some (sample_row 1), Some (sample_row 2)]]\<rparr>"
  by code_simp

text \<open>
  C5.  The claim: from the canonical sequence \<open>[1, 2, 3]\<close> displayed as \<open>[3, 2, 1]\<close> under a
  descending sort, dragging row 3 onto row 1 produces \<open>[2, 1, 3]\<close> and clears the sort.
  The handlers of WindowTable.tsx and \<^verbatim>\<open>unnamed/part_000\<close>, called with the dragged
  identifier \<open>3\<close> and the displayed index 2 of row 1, do not produce \<open>[2, 1, 3]\<close>.
\<close>

theorem sort_then_drag_counterexample:
  "handleDragEnd_Window sample_props sample_displayed sorted_desc ''3'' 2
     \<noteq> Inr \<lparr>state_after = \<lparr>sorting = []\<rparr>,
            calls = [[Some (sample_row 2), Some (sample_row 1), Some (sample_row 3)]]\<rparr>
   \<and> handleDragEnd_Virtualized sample_props sample_displayed
        \<lparr>sorting = [(''id'', True)], isDragging = False, draggedRowIndex = None,
         overRowIndex = Some 2\<rparr> ''3'' 2
     \<noteq> Inr \<lparr>state_after = \<lparr>sorting = [], isDragging = False, draggedRowIndex = None,
                            overRowIndex = None\<rparr>,
            calls = [[Some (sample_row 2), Some (sample_row 1), Some (sample_row 3)]]\<rparr>"
  by code_simp

text \<open>
  C5, amended.  In that scenario both handlers pass \<open>[3, 1, 2]\<close> to \<open>onReorder\<close> (row 3
  moved to the canonical position of row 1, the other rows in their order) and leave the
  sort state empty.
\<close>

theorem sort_then_drag:
  "handleDragEnd_Window sample_props sample_displayed sorted_desc ''3'' 2
     = Inr \<lparr>state_after = \<lparr>sorting = []\<rparr>,
            calls = [[Some (sample_row 3), Some (sample_row 1), Some (sample_row 2)]]\<rparr>
   \<and> handleDragEnd_Virtualized sample_props sample_displayed
        \<lparr>sorting = [(''id'', True)], isDragging = False, draggedRowIndex = None,
         overRowIndex = Some 2\<rparr> ''3'' 2
     = Inr \<lparr>state_after = \<lparr>sorting = [], isDragging = False, draggedRowIndex = None,
                            overRowIndex = None\<rparr>,
            calls = [[Some (sample_row 3), Some (sample_row 1), Some (sample_row 2)]]\<rparr>"
  by code_simp

text \<open>
  C6.  For a data array with unique identifiers and two different identifiers \<open>a\<close>, \<open>b\<close>
  at the indices \<open>i\<close> and \<open>j\<close>, the handler of SecondTable.tsx moves and does not swap: the
  array it passes to \<open>onReorder\<close> is the data with the row of \<open>a\<close> removed and re-inserted
  at index \<open>j\<close> of what is left.  The moved row ends at index \<open>j\<close>; the rows between the
  two indices shift by one towards the source; the rows outside stay where they were; and
  the rows other than the moved one keep their relative order.  The second component of
  VirtuosoTable.tsx passes the same two indices to the library's \<open>arrayMove\<close>.
\<close>

theorem move_not_swap:
  assumes "distinct (map row_id (data p))"
    and "a \<in> row_id ` set (data p)" and "b \<in> row_id ` set (data p)" and "a \<noteq> b"
    and "onReorder p"
  shows "\<exists>i j S'. i < length (data p) \<and> j < length (data p)
            \<and> row_id (data p ! i) = a \<and> row_id (data p ! j) = b
            \<and> calls (handleDragEnd_Second p st \<lparr>active = a, over = Some b\<rparr>) = [spread S']
            \<and> calls (handleDragEnd_Virtuoso arrayMove p ast \<lparr>active = a, over = Some b\<rparr>)
                = [arrayMove (data p) (int i) (int j)]
            \<and> S' = (let rest = take i (data p) @ drop (Suc i) (data p)
                     in take j rest @ data p ! i # drop j rest)
            \<and> S' ! j = data p ! i
            \<and> (\<forall>k. i \<le> k \<and> k < j \<longrightarrow> S' ! k = data p ! Suc k)
            \<and> (\<forall>k. j < k \<and> k \<le> i \<longrightarrow> S' ! k = data p ! (k - 1))
            \<and> (\<forall>k. k < length (data p) \<and> (k < min i j \<or> max i j < k) \<longrightarrow> S' ! k = data p ! k)
            \<and> filter (\<lambda>r. row_id r \<noteq> a) S' = filter (\<lambda>r. row_id r \<noteq> a) (data p)"
proof -
  let ?S = "data p"
  from assms(2) obtain i where i: "i < length ?S" "row_id (?S ! i) = a"
    "findIndex (\<lambda>item. row_id item = a) ?S = int i" using present_index by blast
  from assms(3) obtain j where j: "j < length ?S" "row_id (?S ! j) = b"
    "findIndex (\<lambda>item. row_id item = b) ?S = int j" using present_index by blast
  let ?S' = "move_to i j ?S"
  have c: "calls (handleDragEnd_Second p st \<lparr>active = a, over = Some b\<rparr>) = [spread ?S']"
    using handleDragEnd_Second_commit[OF i(3) i(1) j(3) j(1) assms(4)] assms(5)
    by (simp add: call_onReorder_def)
  have v: "calls (handleDragEnd_Virtuoso arrayMove p ast \<lparr>active = a, over = Some b\<rparr>)
           = [arrayMove ?S (int i) (int j)]"
    using i(3) j(3) assms(4,5)
    by (simp add: handleDragEnd_Virtuoso_def Let_def call_onReorder_def)
  have e: "?S' = (let rest = take i ?S @ drop (Suc i) ?S in take j rest @ ?S ! i # drop j rest)"
    by (simp add: move_to_def)
  have n: "?S' ! j = ?S ! i" using i(1) j(1) by (rule nth_move_to)
  have l: "\<forall>k. i \<le> k \<and> k < j \<longrightarrow> ?S' ! k = ?S ! Suc k"
    using nth_move_to_left[OF i(1) j(1)] by blast
  have r: "\<forall>k. j < k \<and> k \<le> i \<longrightarrow> ?S' ! k = ?S ! (k - 1)"
    using nth_move_to_right[OF i(1) j(1)] by blast
  have o: "\<forall>k. k < length ?S \<and> (k < min i j \<or> max i j < k) \<longrightarrow> ?S' ! k = ?S ! k"
    using nth_move_to_outside[OF i(1) j(1)] by blast
  have f: "filter (\<lambda>r. row_id r \<noteq> a) ?S' = filter (\<lambda>r. row_id r \<noteq> a) ?S"
    using i(1) i(2) by (intro filter_move_to) simp_all
  from i(1) j(1) i(2) j(2) c v e n l r o f show ?thesis by blast
qed

theorem move_not_swap_witness:
  "calls (handleDragEnd_Second sample_props sorted_desc \<lparr>active = Num 1, over = Some (Num 3)\<rparr>)
     = [[Some (sample_row 2), Some (sample_row 3), Some (sample_row 1)]]
   \<and> (\<exists>i j S'. i < length (data sample_props) \<and> j < length (data sample_props)
        \<and> row_id (data sample_props ! i) = Num 1 \<and> row_id (data sample_props ! j) = Num 3
        \<and> calls (handleDragEnd_Second sample_props sorted_desc
                   \<lparr>active = Num 1, over = Some (Num 3)\<rparr>) = [spread S']
        \<and> S' ! j = data sample_props ! i
        \<and> filter (\<lambda>r. row_id r \<noteq> Num 1) S'
            = filter (\<lambda>r. row_id r \<noteq> Num 1) (data sample_props))"
proof -
  have d: "distinct (map row_id (data sample_props))"
    by (simp add: sample_props_def sample_row_def)
  have a: "Num 1 \<in> row_id ` set (data sample_props)"
    by (simp add: sample_props_def sample_row_def)
  have b: "Num 3 \<in> row_id ` set (data sample_props)"
    by (simp add: sample_props_def sample_row_def)
  have ne: "Num 1 \<noteq> Num 3" by simp
  have cb: "onReorder sample_props" by (simp add: sample_props_def)
  have ev: "calls (handleDragEnd_Second sample_props sorted_desc
                    \<lparr>active = Num 1, over = Some (Num 3)\<rparr>)
            = [[Some (sample_row 2), Some (sample_row 3), Some (sample_row 1)]]"
    by code_simp
  from move_not_swap[OF d a b ne cb, of sorted_desc "\<lambda>xs i j. spread xs"
      "\<lparr>sorting = [], activeId = None\<rparr>"]
  have "\<exists>i j S'. i < length (data sample_props) \<and> j < length (data sample_props)
        \<and> row_id (data sample_props ! i) = Num 1 \<and> row_id (data sample_props ! j) = Num 3
        \<and> calls (handleDragEnd_Second sample_props sorted_desc
                   \<lparr>active = Num 1, over = Some (Num 3)\<rparr>) = [spread S']
        \<and> S' ! j = data sample_props ! i
        \<and> filter (\<lambda>r. row_id r \<noteq> Num 1) S'
            = filter (\<lambda>r. row_id r \<noteq> Num 1) (data sample_props)"
    by blast
  with ev show ?thesis by blast
qed

text \<open>
  C7.  Dragging a row onto itself (the dragged identifier equals the target identifier) is
  a no-op in the handlers of SecondTable.tsx (which is also the first component of
  VirtuosoTable.tsx), of DnDKitTable.tsx and of the second component of VirtuosoTable.tsx:
  \<open>onReorder\<close> is not called, the sort state stays, nothing is raised, and on the store
  no array is allocated or changed.
\<close>

theorem drop_on_self_is_noop:
  assumes "d < length h" and "h ! d = spread (data p)"
  shows "handleDragEnd_Second p st \<lparr>active = a, over = Some a\<rparr> = \<lparr>state_after = st, calls = []\<rparr>
   \<and> handleDragEnd_Second_store (onReorder p) d h \<lparr>active = a, over = Some a\<rparr> = Some (h, [])
   \<and> handleDragEnd_DnDKit p st \<lparr>active = a, over = Some a\<rparr> = \<lparr>state_after = st, calls = []\<rparr>
   \<and> handleDragEnd_Virtuoso arrayMove p ast \<lparr>active = a, over = Some a\<rparr>
       = \<lparr>state_after = ast\<lparr>activeId := None\<rparr>, calls = []\<rparr>"
  using assms
  by (simp add: handleDragEnd_Second_def handleDragEnd_DnDKit_def handleDragEnd_Virtuoso_def
      handleDragEnd_Second_store_def those_spread)

theorem drop_on_self_is_noop_witness:
  "handleDragEnd_Second sample_props sorted_desc \<lparr>active = Num 2, over = Some (Num 2)\<rparr>
     = \<lparr>state_after = sorted_desc, calls = []\<rparr>
   \<and> handleDragEnd_Second_store (onReorder sample_props) 0 [spread (data sample_props)]
        \<lparr>active = Num 2, over = Some (Num 2)\<rparr> = Some ([spread (data sample_props)], [])
   \<and> handleDragEnd_DnDKit sample_props sorted_desc \<lparr>active = Num 2, over = Some (Num 2)\<rparr>
     = \<lparr>state_after = sorted_desc, calls = []\<rparr>
   \<and> handleDragEnd_Virtuoso (\<lambda>xs i j. spread xs) sample_props
        \<lparr>sorting = [], activeId = Some (Num 2)\<rparr> \<lparr>active = Num 2, over = Some (Num 2)\<rparr>
     = \<lparr>state_after = \<lparr>sorting = [], activeId = Some (Num 2)\<rparr>\<lparr>activeId := None\<rparr>, calls = []\<rparr>"
proof -
  have v: "(0::nat) < length [spread (data sample_props)]" by simp
  have t: "[spread (data sample_props)] ! 0 = spread (data sample_props)" by simp
  show ?thesis by (rule drop_on_self_is_noop[OF v t])
qed

text \<open>
  C8.  On the store, the handlers of SecondTable.tsx and \<^verbatim>\<open>unnamed/part_001\<close> always
  return; every array that existed before the call, the \<open>data\<close> array among them, has the
  same contents after it; every address passed to \<open>onReorder\<close> is an array allocated
  during the call, different from \<open>data\<close>; and the contents passed are those the pure
  handlers compute.
\<close>

theorem reorder_never_mutates_input:
  assumes "d < length h" and "h ! d = spread S"
  shows "(\<exists>h' cs. handleDragEnd_Second_store cb d h event = Some (h', cs)
            \<and> h' ! d = h ! d \<and> (\<forall>a. a < length h \<longrightarrow> h' ! a = h ! a)
            \<and> (\<forall>c \<in> set cs. c \<noteq> d \<and> length h \<le> c \<and> c < length h')
            \<and> map ((!) h') cs
                = calls (handleDragEnd_Second
                          \<lparr>data = S, onReorder = cb, showSortableColumn = sc\<rparr> st event))
       \<and> (\<exists>h' cs. handleDragEnd_Third_store cb d h draggedId rowIndex = Some (h', cs)
            \<and> h' ! d = h ! d \<and> (\<forall>a. a < length h \<longrightarrow> h' ! a = h ! a)
            \<and> (\<forall>c \<in> set cs. c \<noteq> d \<and> length h \<le> c \<and> c < length h')
            \<and> map ((!) h') cs
                = calls (handleDragEnd_Third
                          \<lparr>data = S, onReorder = cb, showSortableColumn = sc\<rparr> st draggedId rowIndex))"
proof -
  let ?p = "\<lambda>c. \<lparr>data = S, onReorder = c, showSortableColumn = sc\<rparr>"
  have eq2: "handleDragEnd_Second_store cb d h event =
     (case calls (handleDragEnd_Second (?p True) st event) of
        [] \<Rightarrow> Some (h, [])
      | newData # _ \<Rightarrow> Some (h @ [newData], if cb then [length h] else []))"
    using assms by (rule handleDragEnd_Second_store_eq)
  have len2: "length (calls (handleDragEnd_Second (?p True) st event)) \<le> 1"
    by (rule calls_Second_cases(2))
  have c2: "calls (handleDragEnd_Second (?p cb) st event)
            = (if cb then calls (handleDragEnd_Second (?p True) st event) else [])"
    by (rule calls_Second_cases(1))
  have eq3: "handleDragEnd_Third_store cb d h draggedId rowIndex =
     (case calls (handleDragEnd_Third (?p True) st draggedId rowIndex) of
        [] \<Rightarrow> Some (h, [])
      | newData # _ \<Rightarrow> Some (h @ [newData], if cb then [length h] else []))"
    using assms by (rule handleDragEnd_Third_store_eq)
  have len3: "length (calls (handleDragEnd_Third (?p True) st draggedId rowIndex)) \<le> 1"
    by (rule calls_Third_cases(2))
  have c3: "calls (handleDragEnd_Third (?p cb) st draggedId rowIndex)
            = (if cb then calls (handleDragEnd_Third (?p True) st draggedId rowIndex) else [])"
    by (rule calls_Third_cases(1))
  show ?thesis
    using store_outcome_frame[OF assms(1) len2 eq2] store_outcome_frame[OF assms(1) len3 eq3]
    by (simp only: c2 c3)
qed

theorem reorder_never_mutates_input_witness:
  "handleDragEnd_Second_store True 0 [spread (data sample_props)]
       \<lparr>active = Num 1, over = Some (Num 3)\<rparr>
     = Some ([spread (data sample_props),
              [Some (sample_row 2), Some (sample_row 3), Some (sample_row 1)]], [1])
   \<and> (\<exists>h' cs. handleDragEnd_Second_store True 0 [spread (data sample_props)]
                  \<lparr>active = Num 1, over = Some (Num 3)\<rparr> = Some (h', cs)
         \<and> h' ! 0 = spread (data sample_props))
   \<and> (\<exists>h' cs. handleDragEnd_Third_store True 0 [spread (data sample_props)] ''1'' 2
                  = Some (h', cs)
         \<and> h' ! 0 = spread (data sample_props))"
proof -
  have v: "(0::nat) < length [spread (data sample_props)]" by simp
  have t: "[spread (data sample_props)] ! 0 = spread (data sample_props)" by simp
  have ev: "handleDragEnd_Second_store True 0 [spread (data sample_props)]
       \<lparr>active = Num 1, over = Some (Num 3)\<rparr>
     = Some ([spread (data sample_props),
              [Some (sample_row 2), Some (sample_row 3), Some (sample_row 1)]], [1])"
    by code_simp
  from reorder_never_mutates_input[OF v t, of True "\<lparr>active = Num 1, over = Some (Num 3)\<rparr>"
      True sorted_desc "''1''" 2]
  have "(\<exists>h' cs. handleDragEnd_Second_store True 0 [spread (data sample_props)]
                  \<lparr>active = Num 1, over = Some (Num 3)\<rparr> = Some (h', cs)
         \<and> h' ! 0 = spread (data sample_props))
   \<and> (\<exists>h' cs. handleDragEnd_Third_store True 0 [spread (data sample_props)] ''1'' 2
                  = Some (h', cs)
         \<and> h' ! 0 = spread (data sample_props))"
    by (simp only: t) blast
  with ev show ?thesis by blast
qed

text \<open>
  C9.  A gesture that ends over no drop target (\<open>over\<close> is \<open>null\<close>) and a gesture that is
  cancelled change nothing: the handlers return without calling \<open>onReorder\<close>, the sort
  state is the one before, and on the store no array is allocated or changed.  A cancel
  runs \<open>onDragCancel\<close> in the second component of VirtuosoTable.tsx, which only clears
  \<open>activeId\<close>, runs no handler at all in SecondTable.tsx, and arrives as the native
  \<open>dragend\<close> in \<^verbatim>\<open>unnamed/part_000\<close>, which only resets the drag state.
\<close>

theorem no_target_or_cancel_is_noop:
  assumes "d < length h" and "h ! d = spread (data p)"
  shows "handleDragEnd_Second p st \<lparr>active = a, over = None\<rparr> = \<lparr>state_after = st, calls = []\<rparr>
   \<and> handleDragEnd_Second_store (onReorder p) d h \<lparr>active = a, over = None\<rparr> = Some (h, [])
   \<and> handleDragEnd_DnDKit p st \<lparr>active = a, over = None\<rparr> = \<lparr>state_after = st, calls = []\<rparr>
   \<and> handleDragEnd_Virtuoso arrayMove p ast \<lparr>active = a, over = None\<rparr>
       = \<lparr>state_after = ast, calls = []\<rparr>
   \<and> calls (onDragCancel_Virtuoso ast :: (astate, 'a) outcome) = []
   \<and> sorting (state_after (onDragCancel_Virtuoso ast :: (astate, 'a) outcome)) = sorting ast
   \<and> step view (p, vst) DragEnd = Some (p, resetDragState vst)
   \<and> sorting (resetDragState vst) = sorting vst"
  using assms
  by (simp add: handleDragEnd_Second_def handleDragEnd_DnDKit_def handleDragEnd_Virtuoso_def
      handleDragEnd_Second_store_def those_spread onDragCancel_Virtuoso_def resetDragState_def)

theorem no_target_or_cancel_is_noop_witness:
  "handleDragEnd_Second sample_props sorted_desc \<lparr>active = Num 2, over = None\<rparr>
     = \<lparr>state_after = sorted_desc, calls = []\<rparr>
   \<and> handleDragEnd_Second_store (onReorder sample_props) 0 [spread (data sample_props)]
        \<lparr>active = Num 2, over = None\<rparr> = Some ([spread (data sample_props)], [])
   \<and> handleDragEnd_Virtuoso (\<lambda>xs i j. spread xs) sample_props
        \<lparr>sorting = [(''id'', True)], activeId = Some (Num 2)\<rparr> \<lparr>active = Num 2, over = None\<rparr>
     = \<lparr>state_after = \<lparr>sorting = [(''id'', True)], activeId = Some (Num 2)\<rparr>, calls = []\<rparr>"
proof -
  have v: "(0::nat) < length [spread (data sample_props)]" by simp
  have t: "[spread (data sample_props)] ! 0 = spread (data sample_props)" by simp
  from no_target_or_cancel_is_noop[OF v t, of sorted_desc "Num 2" "\<lambda>xs i j. spread xs"
      "\<lparr>sorting = [(''id'', True)], activeId = Some (Num 2)\<rparr>"]
  show ?thesis by blast
qed




end
